theory Spec2Isabelle
  imports Main "HOL-Library.Sublist"
begin

section \<open>JavaScript strings\<close>

text \<open>
  Strings of the program are modelled as \<open>string\<close> (byte lists; every string the
  program itself writes is ASCII except the arrow of the dry-run listing, which is kept
  as its three UTF-8 bytes).  The three string methods that \<open>cli.js\<close> calls are
  \<open>startsWith\<close>, \<open>includes\<close> and \<open>replaceAll\<close>.
\<close>

definition str_startsWith :: "string \<Rightarrow> string \<Rightarrow> bool" where
  "str_startsWith s search = prefix search s"

fun str_includes :: "string \<Rightarrow> string \<Rightarrow> bool" where
  "str_includes [] search = (search = [])"
| "str_includes (c # cs) search = (prefix search (c # cs) \<or> str_includes cs search)"

text \<open>
  \<open>String.prototype.replaceAll(search, replaceValue)\<close> with a string
  \<open>replaceValue\<close> does not insert the replacement verbatim: ECMAScript's
  GetSubstitution expands the patterns \<open>$$\<close> (a dollar sign), \<open>$&\<close> (the matched text),
  \<open>$\<close> followed by a backtick (the text before the match) and \<open>$\<close> followed by an
  apostrophe (the text after the match).  With a string search value there are no
  capture groups, so every other \<open>$\<close> stands for itself.
\<close>

fun getSubstitution :: "string \<Rightarrow> string \<Rightarrow> string \<Rightarrow> string \<Rightarrow> string" where
  "getSubstitution matched preceding following [] = []"
| "getSubstitution matched preceding following [c] = [c]"
| "getSubstitution matched preceding following (c # d # rest) =
     (if c = CHR ''$'' then
        (if d = CHR ''$'' then CHR ''$'' # getSubstitution matched preceding following rest
         else if d = CHR ''&'' then matched @ getSubstitution matched preceding following rest
         else if d = CHR 0x60 then preceding @ getSubstitution matched preceding following rest
         else if d = CHR 0x27 then following @ getSubstitution matched preceding following rest
         else c # getSubstitution matched preceding following (d # rest))
      else c # getSubstitution matched preceding following (d # rest))"

text \<open>
  The matches are found from left to right and do not overlap; \<open>preceding\<close> is the part
  of the original string to the left of the current position.  An empty search string
  matches at every position, the end included.
\<close>

function replaceAllFrom :: "string \<Rightarrow> string \<Rightarrow> string \<Rightarrow> string \<Rightarrow> string" where
  "replaceAllFrom search replaceValue preceding rest =
     (if search = [] then
        getSubstitution [] preceding rest replaceValue @
          (case rest of
             [] \<Rightarrow> []
           | c # cs \<Rightarrow> c # replaceAllFrom search replaceValue (preceding @ [c]) cs)
      else if prefix search rest then
        getSubstitution search preceding (drop (length search) rest) replaceValue @
          replaceAllFrom search replaceValue (preceding @ search) (drop (length search) rest)
      else
        (case rest of
           [] \<Rightarrow> []
         | c # cs \<Rightarrow> c # replaceAllFrom search replaceValue (preceding @ [c]) cs))"
  by pat_completeness auto
termination
proof (relation "measure (\<lambda>(search, replaceValue, preceding, rest). length rest)")
  show "wf (measure (\<lambda>(search, replaceValue, preceding, rest). length rest))"
    by simp
next
  fix search replaceValue preceding rest :: string
  fix c :: char and cs :: string
  assume "rest = c # cs"
  then show "((search, replaceValue, preceding @ [c], cs), (search, replaceValue, preceding, rest))
      \<in> measure (\<lambda>(search, replaceValue, preceding, rest). length rest)"
    by simp
next
  fix search replaceValue preceding rest :: string
  assume "search \<noteq> []" and "prefix search rest"
  then have "rest \<noteq> []" and "0 < length search"
    by auto
  then show "((search, replaceValue, preceding @ search, drop (length search) rest),
      (search, replaceValue, preceding, rest))
      \<in> measure (\<lambda>(search, replaceValue, preceding, rest). length rest)"
    by simp
next
  fix search replaceValue preceding rest :: string
  fix c :: char and cs :: string
  assume "rest = c # cs"
  then show "((search, replaceValue, preceding @ [c], cs), (search, replaceValue, preceding, rest))
      \<in> measure (\<lambda>(search, replaceValue, preceding, rest). length rest)"
    by simp
qed

definition str_replaceAll :: "string \<Rightarrow> string \<Rightarrow> string \<Rightarrow> string" where
  "str_replaceAll s search replaceValue = replaceAllFrom search replaceValue [] s"

declare replaceAllFrom.simps [simp del]

section \<open>Values, errors and the file system\<close>

text \<open>
  A thrown JavaScript error, as far as the program looks at it: \<open>error.name\<close> and
  \<open>error.message\<close>.  A computation that can throw returns \<open>js_error + 'a\<close>, with
  \<open>Inl\<close> for the thrown error.
\<close>

record js_error =
  name :: string
  message :: string

text \<open>
  The \<open>source\<close> and \<open>destination\<close> objects that the engine hands to a rename
  callback.  The callbacks of \<open>cli.js\<close> read \<open>source.nameWithoutExtension\<close> and
  \<open>source.extension\<close> and assign \<open>destination.name\<close>; a callback is modelled as the
  function from the two objects to the destination object after the assignment.
\<close>

record file_entry =
  path :: string
  name :: string
  nameWithoutExtension :: string
  extension :: string

type_synonym rename_callback = "file_entry \<Rightarrow> file_entry \<Rightarrow> file_entry"

text \<open>
  The values that occur as flags and as properties of the options object.
  \<open>JsCallback\<close> stands for the \<open>onProgress\<close> closure, whose effect is the function
  \<open>onProgress\<close> below.
\<close>

datatype js_value =
    JsUndefined
  | JsBoolean bool
  | JsNumber nat
  | JsString string
  | JsFunction rename_callback
  | JsCallback

type_synonym js_object = "(string \<times> js_value) list"

definition getProperty :: "js_object \<Rightarrow> string \<Rightarrow> js_value" where
  "getProperty object key = (case map_of object key of None \<Rightarrow> JsUndefined | Some v \<Rightarrow> v)"

fun truthy :: "js_value \<Rightarrow> bool" where
  "truthy JsUndefined = False"
| "truthy (JsBoolean b) = b"
| "truthy (JsNumber n) = (n \<noteq> 0)"
| "truthy (JsString s) = (s \<noteq> [])"
| "truthy (JsFunction f) = True"
| "truthy JsCallback = True"

text \<open>
  The file system maps a path to what is there: a regular file with its content and
  modification time, a directory, or an entry whose metadata cannot be read (a broken
  symbolic link, a directory without search permission, ...) together with the error
  that \<open>stat\<close> throws for it.  A path that is not mapped does not exist.
\<close>

datatype node =
    File string int
  | Directory int
  | Unreadable js_error

type_synonym filesystem = "string \<Rightarrow> node option"

record stats =
  statsIsDirectory :: bool
  mtimeMs :: int
  statsSize :: nat

definition enoent :: "string \<Rightarrow> js_error" where
  "enoent filePath =
     \<lparr>js_error.name = ''Error'',
      message = ''ENOENT: no such file or directory, stat '' @ filePath\<rparr>"

definition statSync :: "filesystem \<Rightarrow> string \<Rightarrow> js_error + stats" where
  "statSync fs filePath =
     (case fs filePath of
        None \<Rightarrow> Inl (enoent filePath)
      | Some (Unreadable e) \<Rightarrow> Inl e
      | Some (Directory t) \<Rightarrow> Inr \<lparr>statsIsDirectory = True, mtimeMs = t, statsSize = 0\<rparr>
      | Some (File content t) \<Rightarrow>
          Inr \<lparr>statsIsDirectory = False, mtimeMs = t, statsSize = length content\<rparr>)"

section \<open>cli.js\<close>

subsection \<open>isDirectory (lines 10-16)\<close>

text \<open>
  \<open>try { return fs.statSync(filePath).isDirectory(); } catch { return false; }\<close>:
  the catch clause has no binding and no condition, so every thrown error ends in
  \<open>false\<close>.
\<close>

definition isDirectory :: "filesystem \<Rightarrow> string \<Rightarrow> bool" where
  "isDirectory fs filePath =
     (case statSync fs filePath of
        Inr st \<Rightarrow> statsIsDirectory st
      | Inl error \<Rightarrow> False)"

subsection \<open>The parsed command line (lines 18-84)\<close>

text \<open>
  \<open>cli.flags\<close> as meow returns it.  The declared flags are the fields; a flag that
  the declaration of lines 52-83 does not list (meow accepts unknown flags) is kept
  under its name in \<open>undeclared\<close>.  \<open>rename\<close> is undefined or a string after parsing and
  is assigned a callback at lines 90 and 111.
\<close>

record flags =
  overwrite :: bool
  cwd :: string
  base :: "string option"
  rename :: js_value
  dot :: bool
  flat :: bool
  dryRun :: bool
  concurrency :: nat
  undeclared :: js_object

record cli =
  input :: "string list"
  flags :: flags

text \<open>
  The defaults of the flag declaration, for a process started in \<open>processCwd\<close> on a
  machine where \<open>os.cpus()\<close> has \<open>cpus\<close> entries.
\<close>

definition defaultFlags :: "string \<Rightarrow> nat \<Rightarrow> flags" where
  "defaultFlags processCwd cpus =
     \<lparr>overwrite = True,
      cwd = processCwd,
      base = None,
      rename = JsUndefined,
      dot = False,
      flat = False,
      dryRun = False,
      concurrency = (if cpus > 0 then cpus else 1) * 2,
      undeclared = []\<rparr>"

subsection \<open>The collaborators\<close>

text \<open>
  What the engine did in one call \<open>cpy(patterns, destination, options)\<close>: the
  promise is rejected with an error or resolved with the list of copied files, the
  \<open>onProgress\<close> callback was called with the records of \<open>reported\<close> in this order,
  and the file system is left as \<open>filesAfter\<close>.
\<close>

record copy_record =
  sourcePath :: string
  destinationPath :: string

record engine_result =
  returned :: "js_error + copy_record list"
  reported :: "copy_record list"
  filesAfter :: filesystem

type_synonym engine =
  "string list \<Rightarrow> string option \<Rightarrow> js_object \<Rightarrow> filesystem \<Rightarrow> engine_result"

text \<open>
  Everything \<open>cli.js\<close> imports and does not define is a parameter: \<open>process.platform\<close>
  and \<open>process.cwd()\<close>, globby's \<open>isDynamicPattern\<close>, the functions of \<open>node:path\<close>,
  and the \<open>cpy\<close> engine.
\<close>

record env =
  platform :: string
  processCwd :: string
  isDynamicPattern :: "string \<Rightarrow> bool"
  resolve :: "string \<Rightarrow> string \<Rightarrow> string"
  basename :: "string \<Rightarrow> string"
  dirname :: "string \<Rightarrow> string"
  relative :: "string \<Rightarrow> string \<Rightarrow> string"
  cpy :: engine

subsection \<open>The rename template (lines 87-93)\<close>

definition stringTemplate :: string where
  "stringTemplate = ''{{basename}}''"

definition renameTemplate :: "string \<Rightarrow> rename_callback" where
  "renameTemplate renameFlag source destination =
     destination\<lparr>name :=
       str_replaceAll renameFlag stringTemplate (nameWithoutExtension source)
         @ (if extension source \<noteq> [] then ''.'' @ extension source else [])\<rparr>"

text \<open>
  \<open>rename?.includes(stringTemplate)\<close>: only a string that contains the placeholder is
  replaced by the callback; an absent flag and any other string stay as they are.
\<close>

definition applyRenameTemplate :: "flags \<Rightarrow> flags" where
  "applyRenameTemplate f =
     (case rename f of
        JsString r \<Rightarrow>
          (if str_includes r stringTemplate then f\<lparr>rename := JsFunction (renameTemplate r)\<rparr>
           else f)
      | _ \<Rightarrow> f)"

subsection \<open>File-to-file detection (lines 95-117)\<close>

text \<open>
  \<open>cli.input.pop()\<close> removes and returns the last element, and returns undefined on
  an empty array.
\<close>

definition popInput :: "string list \<Rightarrow> string option \<times> string list" where
  "popInput xs = (if xs = [] then (None, []) else (Some (last xs), butlast xs))"

definition sourcePatternsOf :: "string list \<Rightarrow> string list" where
  "sourcePatternsOf patterns = filter (\<lambda>pattern. \<not> str_startsWith pattern ''!'') patterns"

definition hasDestination :: "string option \<Rightarrow> bool" where
  "hasDestination destination = (destination \<noteq> None)"

text \<open>
  \<open>/[\\/]$/.test(destination)\<close>: the last character is a backslash or a slash, on
  every platform.
\<close>

definition hasTrailingSeparator :: "string option \<Rightarrow> bool" where
  "hasTrailingSeparator destination =
     (hasDestination destination
      \<and> (case destination of
            None \<Rightarrow> False
          | Some d \<Rightarrow> d \<noteq> [] \<and> (last d = CHR 0x5C \<or> last d = CHR ''/'')))"

text \<open>
  Line 101: the pattern that \<open>isDynamicPattern\<close> is asked about.  It is only read when
  there is exactly one source pattern, so the test \<open>sourcePatterns.length === 1\<close> of
  that line is true wherever the value is used.
\<close>

definition sourcePatternForDynamicCheck :: "env \<Rightarrow> string \<Rightarrow> string" where
  "sourcePatternForDynamicCheck env pattern =
     (if platform env = ''win32'' then str_replaceAll pattern [CHR 0x5C] ''/'' else pattern)"

text \<open>
  The conjunction of lines 102-107.  \<open>&&\<close> evaluates from left to right and stops at
  the first false operand, so \<open>sourcePatterns[0]\<close> and \<open>destination\<close> are only read
  when there is exactly one source pattern and a destination: the \<open>case\<close> names them.
\<close>

definition isFileToFileCopy ::
    "env \<Rightarrow> filesystem \<Rightarrow> string \<Rightarrow> string list \<Rightarrow> string option \<Rightarrow> bool" where
  "isFileToFileCopy env fs cwdFlag sourcePatterns destination =
     (length sourcePatterns = 1
      \<and> hasDestination destination
      \<and> (case (sourcePatterns, destination) of
            ([pattern], Some d) \<Rightarrow>
              \<not> isDynamicPattern env (sourcePatternForDynamicCheck env pattern)
              \<and> \<not> isDirectory fs (resolve env cwdFlag pattern)
              \<and> \<not> hasTrailingSeparator destination
              \<and> \<not> isDirectory fs (resolve env cwdFlag d)
          | _ \<Rightarrow> False))"

definition renameLiteral :: "string \<Rightarrow> rename_callback" where
  "renameLiteral destinationFilename source destination =
     destination\<lparr>name := destinationFilename\<rparr>"

text \<open>
  Lines 87-117 as one step: the patterns, the destination and the flags with which the
  engine is called.
\<close>

definition prepare :: "env \<Rightarrow> filesystem \<Rightarrow> cli \<Rightarrow> string list \<times> string option \<times> flags" where
  "prepare env fs c =
     (let flags1 = applyRenameTemplate (flags c);
          (destination, patterns) = popInput (input c)
      in case destination of
           Some d \<Rightarrow>
             if isFileToFileCopy env fs (cwd flags1) (sourcePatternsOf patterns) destination
             then (patterns, Some (dirname env d),
                   flags1\<lparr>rename := JsFunction (renameLiteral (basename env d)), flat := True\<rparr>)
             else (patterns, destination, flags1)
         | None \<Rightarrow> (patterns, destination, flags1))"

subsection \<open>The call of the engine and the output (lines 119-152)\<close>

text \<open>The object literal of lines 119-133, property by property.\<close>

definition cpyOptions :: "flags \<Rightarrow> js_object" where
  "cpyOptions f =
     [(''cwd'', JsString (cwd f)),
      (''base'', (case base f of None \<Rightarrow> JsUndefined | Some b \<Rightarrow> JsString b)),
      (''rename'', rename f),
      (''overwrite'', JsBoolean (overwrite f)),
      (''dot'', JsBoolean (dot f)),
      (''flat'', JsBoolean (flat f)),
      (''concurrency'', JsNumber (concurrency f)),
      (''dryRun'', JsBoolean (dryRun f)),
      (''onProgress'', JsCallback)]"

definition onProgress :: "flags \<Rightarrow> copy_record list \<Rightarrow> copy_record \<Rightarrow> copy_record list" where
  "onProgress f copyFiles event = (if dryRun f then copyFiles @ [event] else copyFiles)"

definition arrow :: string where
  "arrow = [CHR 0xE2, CHR 0x86, CHR 0x92]"

definition formatLine :: "env \<Rightarrow> copy_record \<Rightarrow> string" where
  "formatLine env r =
     relative env (processCwd env) (sourcePath r) @ '' '' @ arrow @ '' ''
       @ relative env (processCwd env) (destinationPath r)"

text \<open>
  How the process ends: \<open>Exit n\<close> is an exit with code \<open>n\<close> (0 when the module runs
  to its end), \<open>Uncaught e\<close> is the error \<open>e\<close> rethrown by the catch clause.  \<open>stdout\<close> and
  \<open>stderr\<close> hold one entry per call of \<open>console.log\<close> and \<open>console.error\<close>.
\<close>

datatype exit_status = Exit nat | Uncaught js_error

record outcome =
  stdout :: "string list"
  stderr :: "string list"
  status :: exit_status
  filesystemAfter :: filesystem

text \<open>
  Lines 128-152 once the engine has answered: the records collected by \<open>onProgress\<close>,
  the no-match exit, the dry-run listing and the catch clause.
\<close>

definition report :: "env \<Rightarrow> flags \<Rightarrow> engine_result \<Rightarrow> outcome" where
  "report env flags1 result =
     (let copyFiles = foldl (onProgress flags1) [] (reported result)
      in case returned result of
           Inl error \<Rightarrow>
             if js_error.name error = ''CpyError''
             then \<lparr>stdout = [], stderr = [message error], status = Exit 1,
                   filesystemAfter = filesAfter result\<rparr>
             else \<lparr>stdout = [], stderr = [], status = Uncaught error,
                   filesystemAfter = filesAfter result\<rparr>
         | Inr files \<Rightarrow>
             if length files = 0
             then \<lparr>stdout = [], stderr = [''No files matched the given patterns''],
                   status = Exit 1, filesystemAfter = filesAfter result\<rparr>
             else \<lparr>stdout = (if dryRun flags1 then map (formatLine env) copyFiles else []),
                   stderr = [], status = Exit 0, filesystemAfter = filesAfter result\<rparr>)"

text \<open>The call of line 119 for an invocation, and the whole program.\<close>

definition cpyCall :: "env \<Rightarrow> filesystem \<Rightarrow> cli \<Rightarrow> engine_result" where
  "cpyCall env fs c =
     (case prepare env fs c of
        (patterns, destination, flags1) \<Rightarrow>
          cpy env patterns destination (cpyOptions flags1) fs)"

definition main :: "env \<Rightarrow> filesystem \<Rightarrow> cli \<Rightarrow> outcome" where
  "main env fs c =
     (case prepare env fs c of
        (patterns, destination, flags1) \<Rightarrow>
          report env flags1 (cpy env patterns destination (cpyOptions flags1) fs))"

text \<open>The value of the constant \<open>isFileToFileCopy\<close> of line 102 for an invocation.\<close>

definition fileToFile :: "env \<Rightarrow> filesystem \<Rightarrow> cli \<Rightarrow> bool" where
  "fileToFile env fs c =
     (case popInput (input c) of
        (destination, patterns) \<Rightarrow>
          isFileToFileCopy env fs (cwd (applyRenameTemplate (flags c)))
            (sourcePatternsOf patterns) destination)"

section \<open>The copy engine\<close>

text \<open>
  The \<open>cpy\<close> package that \<open>cli.js\<close> calls is not among the sources.  Where a property
  depends on what the engine does, the engine is the following model of the
  specification's sections 4.4 (Update Policy), 4.6 (Copy Scheduler) and 7 (error
  kinds).  The scheduler is modelled sequentially, in match order: one task after the
  other, stopping at the first failure (the specification's default fail-fast policy).
  Parent directories are not modelled: the file system is a flat map from paths.
\<close>

text \<open>
  Modelled from the spec: the error kinds of section 7, raised by the absent engine.
  \<open>cli.js\<close> recognises the engine's user-facing errors by the name \<open>CpyError\<close>; the
  message is the kind followed by the path it concerns, if any.
\<close>

datatype error_kind =
    MissingArgumentsError
  | NoMatchError
  | SourceNotFoundError
  | AlreadyExistsError
  | StatError
  | CopyIOError

text \<open>
  Modelled from the spec: the wording of the absent engine's messages, one per error
  kind of section 7.
\<close>

fun kindText :: "error_kind \<Rightarrow> string" where
  "kindText MissingArgumentsError = ''source and destination required''"
| "kindText NoMatchError = ''no files matched''"
| "kindText SourceNotFoundError = ''source file does not exist''"
| "kindText AlreadyExistsError = ''destination already exists''"
| "kindText StatError = ''cannot read file metadata''"
| "kindText CopyIOError = ''cannot copy''"

text \<open>
  Modelled from the spec: an error of the absent engine, of a kind of section 7.
\<close>

definition cpyError :: "error_kind \<Rightarrow> string \<Rightarrow> js_error" where
  "cpyError kind filePath =
     \<lparr>js_error.name = ''CpyError'',
      message = kindText kind @ (if filePath = [] then [] else '': '' @ filePath)\<rparr>"

text \<open>
  Modelled from the spec: the metadata that the Update Policy of section 4.4 compares
  (modification time and size), read by the absent engine.
\<close>

record file_meta =
  modified :: int
  bytes :: nat

text \<open>
  Modelled from the spec: \<open>shouldCopy(sourceMeta, destinationMeta)\<close> of section 4.4,
  part of the absent engine; \<open>None\<close> is a destination that does not exist, and the
  result is \<open>proceed\<close>.
\<close>

definition shouldCopy :: "file_meta \<Rightarrow> file_meta option \<Rightarrow> bool" where
  "shouldCopy sourceMeta destinationMeta =
     (case destinationMeta of
        None \<Rightarrow> True
      | Some d \<Rightarrow>
          if modified d < modified sourceMeta then True
          else if modified sourceMeta = modified d \<and> bytes sourceMeta \<noteq> bytes d then True
          else False)"

text \<open>
  Modelled from the spec: the CopyOptions bundle of section 3 as the absent engine reads
  it from the options object.  Overwrite is enabled unless the caller disables it;
  update and dry-run are enabled only when the caller passes them.
\<close>

record copy_options =
  optOverwrite :: bool
  optUpdate :: bool
  optDryRun :: bool

definition copyOptionsOf :: "js_object \<Rightarrow> copy_options" where
  "copyOptionsOf options =
     \<lparr>optOverwrite =
        (case getProperty options ''overwrite'' of JsUndefined \<Rightarrow> True | v \<Rightarrow> truthy v),
      optUpdate = truthy (getProperty options ''update''),
      optDryRun = truthy (getProperty options ''dryRun'')\<rparr>"

text \<open>
  Modelled from the spec: reading one side's metadata for the Update Policy (section
  4.4) in the absent engine.  Not-found is an answer (\<open>Inr None\<close>); any other failure is
  the hard error \<open>StatError\<close>.
\<close>

definition readMeta :: "filesystem \<Rightarrow> string \<Rightarrow> js_error + file_meta option" where
  "readMeta fs filePath =
     (case fs filePath of
        None \<Rightarrow> Inr None
      | Some (Unreadable e) \<Rightarrow> Inl (cpyError StatError filePath)
      | Some (Directory t) \<Rightarrow> Inr (Some \<lparr>modified = t, bytes = 0\<rparr>)
      | Some (File content t) \<Rightarrow> Inr (Some \<lparr>modified = t, bytes = length content\<rparr>))"

text \<open>
  Modelled from the spec: the update gate of section 4.4 in the absent engine.  The policy is
  consulted only in update mode, and update mode is ignored when overwrite is disabled.
  A source that has vanished is left to the copy itself, which then fails.
\<close>

definition updateGate :: "copy_options \<Rightarrow> filesystem \<Rightarrow> string \<Rightarrow> string \<Rightarrow> js_error + bool" where
  "updateGate opts fs source destination =
     (if optUpdate opts \<and> optOverwrite opts then
        (case readMeta fs source of
           Inl e \<Rightarrow> Inl e
         | Inr None \<Rightarrow> Inr True
         | Inr (Some sourceMeta) \<Rightarrow>
             (case readMeta fs destination of
                Inl e \<Rightarrow> Inl e
              | Inr destinationMeta \<Rightarrow> Inr (shouldCopy sourceMeta destinationMeta)))
      else Inr True)"

text \<open>
  Modelled from the spec: the byte copy of one file honouring the overwrite flag
  (sections 1 and 4.6), performed by the absent engine: content and modification time
  of the source are written to the destination.
\<close>

definition performCopy :: "bool \<Rightarrow> string \<Rightarrow> string \<Rightarrow> filesystem \<Rightarrow> js_error + filesystem" where
  "performCopy overwriteEnabled source destination fs =
     (if \<not> overwriteEnabled \<and> fs destination \<noteq> None
      then Inl (cpyError AlreadyExistsError destination)
      else
        (case fs source of
           Some (File content t) \<Rightarrow>
             (case fs destination of
                Some (Directory t') \<Rightarrow> Inl (cpyError CopyIOError destination)
              | _ \<Rightarrow> Inr (fs(destination \<mapsto> File content t)))
         | _ \<Rightarrow> Inl (cpyError CopyIOError source)))"

text \<open>
  Modelled from the spec: \<open>run(tasks, options)\<close> of section 4.6, the scheduler of the
  absent engine.  A task is a source path with its computed destination path.  A task
  that the update gate skips is neither recorded nor reported; in dry-run mode nothing is
  copied and the would-be copy is recorded and reported.
\<close>

fun run :: "copy_options \<Rightarrow> (string \<times> string) list \<Rightarrow> filesystem \<Rightarrow> engine_result" where
  "run opts [] fs = \<lparr>returned = Inr [], reported = [], filesAfter = fs\<rparr>"
| "run opts ((source, destination) # tasks) fs =
     (case updateGate opts fs source destination of
        Inl e \<Rightarrow> \<lparr>returned = Inl e, reported = [], filesAfter = fs\<rparr>
      | Inr False \<Rightarrow> run opts tasks fs
      | Inr True \<Rightarrow>
          (case (if optDryRun opts then Inr fs
                 else performCopy (optOverwrite opts) source destination fs) of
             Inl e \<Rightarrow> \<lparr>returned = Inl e, reported = [], filesAfter = fs\<rparr>
           | Inr fs' \<Rightarrow>
               (let done = \<lparr>sourcePath = source, destinationPath = destination\<rparr>;
                    later = run opts tasks fs'
                in later\<lparr>returned := map_sum id ((#) done) (returned later),
                         reported := done # reported later\<rparr>)))"

text \<open>
  Modelled from the spec: the entry point of the absent engine.  The Pattern Expander
  and the Path Resolver (sections 4.1-4.3) are the parameter \<open>plan\<close>, which turns the
  patterns into the ordered tasks or fails (with \<open>NoMatchError\<close>, for one).
\<close>

type_synonym planner =
  "string list \<Rightarrow> string \<Rightarrow> js_object \<Rightarrow> filesystem \<Rightarrow> js_error + (string \<times> string) list"

definition specCpy :: "planner \<Rightarrow> engine" where
  "specCpy plan patterns destination options fs =
     (case destination of
        None \<Rightarrow>
          \<lparr>returned = Inl (cpyError MissingArgumentsError []), reported = [], filesAfter = fs\<rparr>
      | Some d \<Rightarrow>
          if patterns = []
          then \<lparr>returned = Inl (cpyError MissingArgumentsError []), reported = [],
                filesAfter = fs\<rparr>
          else
            (case plan patterns d options fs of
               Inl e \<Rightarrow> \<lparr>returned = Inl e, reported = [], filesAfter = fs\<rparr>
             | Inr tasks \<Rightarrow> run (copyOptionsOf options) tasks fs))"

text \<open>
  The record of a copy task, and the copy tasks that pass the update gate in a given
  file system: the
  would-be copies of a dry run.
\<close>

definition recordOf :: "string \<times> string \<Rightarrow> copy_record" where
  "recordOf task = \<lparr>sourcePath = fst task, destinationPath = snd task\<rparr>"

definition wouldCopy ::
    "copy_options \<Rightarrow> filesystem \<Rightarrow> (string \<times> string) list \<Rightarrow> (string \<times> string) list" where
  "wouldCopy opts fs tasks =
     filter (\<lambda>task. updateGate opts fs (fst task) (snd task) = Inr True) tasks"

section \<open>A concrete environment for the examples\<close>

text \<open>
  The theorems below hold for every environment.  The closed examples run the program
  in the following one: a POSIX system with working directory \<open>/work\<close>.  The path
  functions follow \<open>node:path\<close> on POSIX for an absolute first argument:
  \<open>resolve\<close> drops empty and \<open>.\<close> segments and lets \<open>..\<close> remove the segment before
  it, \<open>basename\<close> and \<open>dirname\<close> ignore trailing slashes, and \<open>relative\<close> climbs out
  of the first path with \<open>..\<close> and descends into the second.
  \<open>sampleIsDynamicPattern\<close> agrees with globby on the patterns of the examples (a name
  without glob characters is static).
\<close>

fun splitOn :: "char \<Rightarrow> string \<Rightarrow> string list" where
  "splitOn sep [] = [[]]"
| "splitOn sep (c # cs) =
     (if c = sep then [] # splitOn sep cs
      else (case splitOn sep cs of [] \<Rightarrow> [[c]] | x # xs \<Rightarrow> (c # x) # xs))"

definition normalSegments :: "string \<Rightarrow> string list" where
  "normalSegments p =
     foldl (\<lambda>kept segment. if segment = ''..'' then butlast kept else kept @ [segment]) []
       (filter (\<lambda>segment. segment \<noteq> [] \<and> segment \<noteq> ''.'') (splitOn CHR ''/'' p))"

definition joinSegments :: "string list \<Rightarrow> string" where
  "joinSegments segments = concat (map (\<lambda>segment. CHR ''/'' # segment) segments)"

definition posixResolve :: "string \<Rightarrow> string \<Rightarrow> string" where
  "posixResolve from to =
     (let segments = normalSegments (if str_startsWith to ''/'' then to else from @ ''/'' @ to)
      in if segments = [] then ''/'' else joinSegments segments)"

definition posixBasename :: "string \<Rightarrow> string" where
  "posixBasename p =
     rev (takeWhile (\<lambda>c. c \<noteq> CHR ''/'') (dropWhile (\<lambda>c. c = CHR ''/'') (rev p)))"

definition posixDirname :: "string \<Rightarrow> string" where
  "posixDirname p =
     (let parent =
            dropWhile (\<lambda>c. c = CHR ''/'')
              (dropWhile (\<lambda>c. c \<noteq> CHR ''/'') (dropWhile (\<lambda>c. c = CHR ''/'') (rev p)))
      in if parent \<noteq> [] then rev parent
         else if str_startsWith p ''/'' then ''/'' else ''.'')"

fun commonSegments :: "string list \<Rightarrow> string list \<Rightarrow> nat" where
  "commonSegments (x # xs) (y # ys) = (if x = y then Suc (commonSegments xs ys) else 0)"
| "commonSegments xs ys = 0"

definition posixRelative :: "string \<Rightarrow> string \<Rightarrow> string" where
  "posixRelative from to =
     (let f = normalSegments from;
          t = normalSegments to;
          n = commonSegments f t
      in drop 1 (joinSegments (replicate (length f - n) ''..'' @ drop n t)))"

definition sampleIsDynamicPattern :: "string \<Rightarrow> bool" where
  "sampleIsDynamicPattern pattern = list_ex (\<lambda>c. c \<in> set ''*?[{('') pattern"

definition posixEnv :: "engine \<Rightarrow> env" where
  "posixEnv engine =
     \<lparr>platform = ''linux'',
      processCwd = ''/work'',
      isDynamicPattern = sampleIsDynamicPattern,
      resolve = posixResolve,
      basename = posixBasename,
      dirname = posixDirname,
      relative = posixRelative,
      cpy = engine\<rparr>"

text \<open>
  A planner for the examples: every pattern is the literal name of a file that lies
  directly in the working directory, and the file goes into the destination directory
  under its own name, under the literal name of a \<open>rename\<close> string, or under the name
  that a \<open>rename\<close> callback assigns.  A single named source that does not exist is a
  \<open>SourceNotFoundError\<close>; no source at all is a \<open>NoMatchError\<close> (a glob pattern
  matches nothing here).
\<close>

definition entryOf :: "string \<Rightarrow> file_entry" where
  "entryOf filePath =
     (let base = posixBasename filePath;
          ext = rev (takeWhile (\<lambda>c. c \<noteq> CHR ''.'') (rev base));
          stem = take (length base - length ext - 1) base
      in if stem = [] \<or> length ext = length base
         then \<lparr>path = filePath, name = base, nameWithoutExtension = base, extension = []\<rparr>
         else \<lparr>path = filePath, name = base, nameWithoutExtension = stem, extension = ext\<rparr>)"

definition renamed :: "js_value \<Rightarrow> string \<Rightarrow> string" where
  "renamed renameOption filePath =
     (case renameOption of
        JsString literal \<Rightarrow> literal
      | JsFunction callback \<Rightarrow> name (callback (entryOf filePath) (entryOf filePath))
      | _ \<Rightarrow> posixBasename filePath)"

definition isFile :: "filesystem \<Rightarrow> string \<Rightarrow> bool" where
  "isFile fs filePath = (case fs filePath of Some (File content t) \<Rightarrow> True | _ \<Rightarrow> False)"

definition samplePlan :: planner where
  "samplePlan patterns destination options fs =
     (let cwdOption = (case getProperty options ''cwd'' of JsString d \<Rightarrow> d | _ \<Rightarrow> ''/work'');
          positive = sourcePatternsOf patterns;
          sources = filter (isFile fs) (map (posixResolve cwdOption) positive)
      in case (positive, sources) of
           ([single], []) \<Rightarrow>
             if sampleIsDynamicPattern single then Inl (cpyError NoMatchError cwdOption)
             else Inl (cpyError SourceNotFoundError (posixResolve cwdOption single))
         | (_, []) \<Rightarrow> Inl (cpyError NoMatchError cwdOption)
         | _ \<Rightarrow>
             Inr (map (\<lambda>s. (s, posixResolve (posixResolve cwdOption destination)
                                  (renamed (getProperty options ''rename'') s))) sources))"

definition sampleEnv :: env where
  "sampleEnv = posixEnv (specCpy samplePlan)"

text \<open>The file systems and invocations of the examples.\<close>

definition oneFile :: filesystem where
  "oneFile = [''/work/a.txt'' \<mapsto> File ''A'' 1]"

definition unreadableFiles :: filesystem where
  "unreadableFiles =
     [''/work/a.txt'' \<mapsto> File ''A'' 1,
      ''/work/out.txt'' \<mapsto>
        Unreadable \<lparr>js_error.name = ''Error'', message = ''EACCES: permission denied''\<rparr>]"

definition plainCopy :: cli where
  "plainCopy = \<lparr>input = [''a.txt'', ''out.txt''], flags = defaultFlags ''/work'' 4\<rparr>"

definition negatedCopy :: cli where
  "negatedCopy =
     \<lparr>input = [''a.txt'', ''!b.txt'', ''out.txt''], flags = defaultFlags ''/work'' 4\<rparr>"

definition dryRunCopies :: cli where
  "dryRunCopies =
     \<lparr>input = [''a.txt'', ''b.txt'', ''dest''],
      flags = (defaultFlags ''/work'' 4)\<lparr>dryRun := True\<rparr>\<rparr>"

definition twoCopies :: cli where
  "twoCopies = \<lparr>input = [''a.txt'', ''b.txt'', ''dest''], flags = defaultFlags ''/work'' 4\<rparr>"

definition twoFiles :: filesystem where
  "twoFiles =
     [''/work/a.txt'' \<mapsto> File ''A'' 1,
      ''/work/b.txt'' \<mapsto> File ''B'' 2,
      ''/work/dest'' \<mapsto> Directory 0]"

definition globRun :: cli where
  "globRun = \<lparr>input = [''*.js'', ''dest''], flags = defaultFlags ''/work'' 4\<rparr>"

definition missingRun :: cli where
  "missingRun = \<lparr>input = [''nonexistentfile'', ''dest''], flags = defaultFlags ''/work'' 4\<rparr>"

text \<open>
  The first step of the repository's test \<open>update only copies when source is newer or
  size differs at the same mtime\<close>, and the test \<open>dry run update with no work produces
  no output\<close>: the destination is newer than the source and the command line has
  \<open>--update\<close>.
\<close>

definition updateFiles :: filesystem where
  "updateFiles =
     [''/work/source.txt'' \<mapsto> File ''source-old'' 1,
      ''/work/dest'' \<mapsto> Directory 0,
      ''/work/dest/source.txt'' \<mapsto> File ''destination-newer'' 2]"

definition updateRun :: cli where
  "updateRun =
     \<lparr>input = [''source.txt'', ''dest''],
      flags = (defaultFlags ''/work'' 4)\<lparr>undeclared := [(''update'', JsBoolean True)]\<rparr>\<rparr>"

definition updateDryRun :: cli where
  "updateDryRun =
     \<lparr>input = [''source.txt'', ''dest''],
      flags = (defaultFlags ''/work'' 4)
        \<lparr>dryRun := True, undeclared := [(''update'', JsBoolean True)]\<rparr>\<rparr>"

definition updateMode :: copy_options where
  "updateMode = \<lparr>optOverwrite = True, optUpdate = True, optDryRun = False\<rparr>"

definition updateDryMode :: copy_options where
  "updateDryMode = \<lparr>optOverwrite = True, optUpdate = True, optDryRun = True\<rparr>"

text \<open>
  The test \<open>update skips when size and modification time are the same\<close>.
\<close>

definition sameTimeFiles :: filesystem where
  "sameTimeFiles =
     [''/work/source.txt'' \<mapsto> File ''same'' 5,
      ''/work/dest'' \<mapsto> Directory 0,
      ''/work/dest/source.txt'' \<mapsto> File ''diff'' 5]"

text \<open>
  The tests \<open>overwrite files by default\<close> and \<open>do not overwrite when --no-overwrite is
  set\<close>.
\<close>

definition overwriteFiles :: filesystem where
  "overwriteFiles =
     [''/work/hello.js'' \<mapsto> File ''A'' 2,
      ''/work/dest'' \<mapsto> Directory 0,
      ''/work/dest/hello.js'' \<mapsto> File ''B'' 1]"

definition overwriteRun :: cli where
  "overwriteRun = \<lparr>input = [''hello.js'', ''dest''], flags = defaultFlags ''/work'' 4\<rparr>"

definition noOverwriteRun :: cli where
  "noOverwriteRun =
     \<lparr>input = [''hello.js'', ''dest''],
      flags = (defaultFlags ''/work'' 4)\<lparr>overwrite := False\<rparr>\<rparr>"

text \<open>
  An engine that answers every call in the same way and touches nothing: with an empty
  list it is an engine that found no file, with an error that is not a \<open>CpyError\<close> it
  is an engine that ran into a programming error.
\<close>

definition constantEngine :: "js_error + copy_record list \<Rightarrow> engine" where
  "constantEngine answer patterns destination options fs =
     \<lparr>returned = answer, reported = [], filesAfter = fs\<rparr>"

definition typeError :: js_error where
  "typeError =
     \<lparr>js_error.name = ''TypeError'', message = ''options.filter is not a function''\<rparr>"

text \<open>
  An entry of \<open>stderr\<close> is what one call of \<open>console.error\<close> writes; it is a single
  line when it holds no line feed.
\<close>

definition singleLine :: "string \<Rightarrow> bool" where
  "singleLine s = (CHR 0x0A \<notin> set s)"

text \<open>
  \<open>cpy\<close> called for a source whose name holds a line feed and that does not exist.
\<close>

definition lineFeedRun :: cli where
  "lineFeedRun =
     \<lparr>input = [[CHR ''a'', CHR 0x0A, CHR ''b''], ''dest''], flags = defaultFlags ''/work'' 4\<rparr>"

section \<open>Properties of cli.js\<close>

subsection \<open>Auxiliary facts\<close>

lemma cwd_applyRenameTemplate: "cwd (applyRenameTemplate f) = cwd f"
  by (simp add: applyRenameTemplate_def split: js_value.splits)

lemma popInput_nonempty: "xs \<noteq> [] \<Longrightarrow> popInput xs = (Some (last xs), butlast xs)"
  by (simp add: popInput_def)

lemma popInput_empty: "popInput [] = (None, [])"
  by (simp add: popInput_def)

lemma isFileToFileCopy_single:
  "isFileToFileCopy env fs cwdFlag ps dest =
     (\<exists>pattern d. ps = [pattern] \<and> dest = Some d
        \<and> \<not> isDynamicPattern env (sourcePatternForDynamicCheck env pattern)
        \<and> \<not> isDirectory fs (resolve env cwdFlag pattern)
        \<and> \<not> hasTrailingSeparator (Some d)
        \<and> \<not> isDirectory fs (resolve env cwdFlag d))"
  by (auto simp: isFileToFileCopy_def hasDestination_def split: list.splits option.splits)

lemma foldl_onProgress:
  "foldl (onProgress f) acc events = (if dryRun f then acc @ events else acc)"
  by (induction events arbitrary: acc) (simp_all add: onProgress_def)

lemma prepare_flags:
  "dryRun (snd (snd (prepare env fs c))) = dryRun (flags c)
   \<and> overwrite (snd (snd (prepare env fs c))) = overwrite (flags c)"
  by (simp add: prepare_def Let_def applyRenameTemplate_def
      split: prod.splits option.splits js_value.splits)

lemma main_report:
  "main env fs c = report env (snd (snd (prepare env fs c))) (cpyCall env fs c)"
  by (simp add: main_def cpyCall_def split: prod.splits)

lemma stdout_report:
  "stdout (report env f r) =
     (case returned r of
        Inl e \<Rightarrow> []
      | Inr files \<Rightarrow>
          if files \<noteq> [] \<and> dryRun f then map (formatLine env) (reported r) else [])"
  by (simp add: report_def foldl_onProgress split: sum.splits)

lemma report_rejected:
  "returned r = Inl e \<Longrightarrow>
     report env f r =
       (if js_error.name e = ''CpyError''
        then \<lparr>stdout = [], stderr = [message e], status = Exit 1,
              filesystemAfter = filesAfter r\<rparr>
        else \<lparr>stdout = [], stderr = [], status = Uncaught e,
              filesystemAfter = filesAfter r\<rparr>)"
  by (simp add: report_def)

lemma report_resolved:
  "returned r = Inr files \<Longrightarrow>
     report env f r =
       (if files = []
        then \<lparr>stdout = [], stderr = [''No files matched the given patterns''],
              status = Exit 1, filesystemAfter = filesAfter r\<rparr>
        else \<lparr>stdout = (if dryRun f then map (formatLine env) (reported r) else []),
              stderr = [], status = Exit 0, filesystemAfter = filesAfter r\<rparr>)"
  by (simp add: report_def foldl_onProgress)

lemma optOverwrite_cpyOptions: "optOverwrite (copyOptionsOf (cpyOptions f)) = overwrite f"
  by (simp add: copyOptionsOf_def getProperty_def cpyOptions_def)

lemma optDryRun_cpyOptions: "optDryRun (copyOptionsOf (cpyOptions f)) = dryRun f"
  by (simp add: copyOptionsOf_def getProperty_def cpyOptions_def)

lemma updateGate_without_overwrite:
  "\<not> optOverwrite opts \<Longrightarrow> updateGate opts fs source destination = Inr True"
  by (simp add: updateGate_def)

lemma updateGate_without_update:
  "\<not> optUpdate opts \<Longrightarrow> updateGate opts fs source destination = Inr True"
  by (simp add: updateGate_def)

subsection \<open>The update flag\<close>

text \<open>
  The object literal of lines 119-133 has no \<open>update\<close> property, whatever the flags
  are, so the engine never sees update mode.
\<close>

lemma update_never_forwarded:
  "getProperty (cpyOptions f) ''update'' = JsUndefined
   \<and> \<not> optUpdate (copyOptionsOf (cpyOptions f))"
  by (simp add: getProperty_def cpyOptions_def copyOptionsOf_def)

text \<open>
  Claim C1 says that \<open>--update\<close> enables the update policy.  The run below is the first
  step of the repository's test \<open>update only copies when source is newer or size
  differs at the same mtime\<close>: \<open>cpy source.txt dest --update\<close> with a destination file
  that is newer than the source.  The flag is on the command line, the options of the
  engine call have update mode off, and the older source replaces the newer
  destination.  The update policy itself says that this copy must not proceed, and an
  engine run in update mode leaves the destination as it is.
\<close>

theorem update_flag_is_dropped:
  "truthy (getProperty (undeclared (flags updateRun)) ''update'')
   \<and> \<not> optUpdate (copyOptionsOf
          (cpyOptions (snd (snd (prepare sampleEnv updateFiles updateRun)))))
   \<and> status (main sampleEnv updateFiles updateRun) = Exit 0
   \<and> filesystemAfter (main sampleEnv updateFiles updateRun) ''/work/dest/source.txt''
        = Some (File ''source-old'' 1)
   \<and> \<not> shouldCopy \<lparr>modified = 1, bytes = 10\<rparr> (Some \<lparr>modified = 2, bytes = 17\<rparr>)
   \<and> filesAfter (run updateMode [(''/work/source.txt'', ''/work/dest/source.txt'')] updateFiles)
        ''/work/dest/source.txt'' = Some (File ''destination-newer'' 2)"
proof -
  have a: "truthy (getProperty (undeclared (flags updateRun)) ''update'')"
    by code_simp
  have b: "\<not> optUpdate (copyOptionsOf
          (cpyOptions (snd (snd (prepare sampleEnv updateFiles updateRun)))))"
    by (simp add: update_never_forwarded)
  have c: "status (main sampleEnv updateFiles updateRun) = Exit 0"
    by code_simp
  have d: "filesystemAfter (main sampleEnv updateFiles updateRun) ''/work/dest/source.txt''
        = Some (File ''source-old'' 1)"
    by code_simp
  have e: "\<not> shouldCopy \<lparr>modified = 1, bytes = 10\<rparr> (Some \<lparr>modified = 2, bytes = 17\<rparr>)"
    by code_simp
  have f: "filesAfter
        (run updateMode [(''/work/source.txt'', ''/work/dest/source.txt'')] updateFiles)
        ''/work/dest/source.txt'' = Some (File ''destination-newer'' 2)"
    by code_simp
  from a b c d e f show ?thesis by simp
qed

subsection \<open>The file-to-file copy\<close>

text \<open>
  Claim C2, as amended.  An invocation is reclassified as a single file-to-file copy if
  and only if: there is a destination (the last argument), exactly one of the
  arguments before it does not start with \<open>!\<close> (negated patterns are not counted),
  that pattern is not a dynamic glob pattern (on Windows after replacing backslashes
  by slashes), it does not resolve to an existing directory, the destination does not
  end with a slash or a backslash, and the destination does not resolve to an existing
  directory.  When reclassified, the engine is called with the destination's parent as
  destination, with flatten on, and with a rename callback that assigns the
  destination's basename as the file name; otherwise destination and flags are passed
  on as they are.
\<close>

theorem file_to_file_reclassification:
  "(fileToFile env fs c \<longleftrightarrow>
      (\<exists>pattern d. input c \<noteq> [] \<and> last (input c) = d
         \<and> filter (\<lambda>p. \<not> prefix ''!'' p) (butlast (input c)) = [pattern]
         \<and> \<not> isDynamicPattern env (sourcePatternForDynamicCheck env pattern)
         \<and> \<not> isDirectory fs (resolve env (cwd (flags c)) pattern)
         \<and> \<not> (d \<noteq> [] \<and> (last d = CHR ''/'' \<or> last d = CHR 0x5C))
         \<and> \<not> isDirectory fs (resolve env (cwd (flags c)) d)))
   \<and> (fileToFile env fs c \<longrightarrow>
        prepare env fs c =
          (butlast (input c), Some (dirname env (last (input c))),
           (applyRenameTemplate (flags c))
             \<lparr>rename := JsFunction (renameLiteral (basename env (last (input c)))),
              flat := True\<rparr>)
        \<and> (\<forall>source destination.
              name (renameLiteral (basename env (last (input c))) source destination)
                = basename env (last (input c))))
   \<and> (\<not> fileToFile env fs c \<longrightarrow>
        prepare env fs c
          = (snd (popInput (input c)), fst (popInput (input c)), applyRenameTemplate (flags c)))"
proof (cases "input c = []")
  case True
  then show ?thesis
    by (simp add: fileToFile_def prepare_def popInput_empty isFileToFileCopy_single)
next
  case False
  then have p: "popInput (input c) = (Some (last (input c)), butlast (input c))"
    by (rule popInput_nonempty)
  have iff: "fileToFile env fs c \<longleftrightarrow>
      (\<exists>pattern d. input c \<noteq> [] \<and> last (input c) = d
         \<and> filter (\<lambda>p. \<not> prefix ''!'' p) (butlast (input c)) = [pattern]
         \<and> \<not> isDynamicPattern env (sourcePatternForDynamicCheck env pattern)
         \<and> \<not> isDirectory fs (resolve env (cwd (flags c)) pattern)
         \<and> \<not> (d \<noteq> [] \<and> (last d = CHR ''/'' \<or> last d = CHR 0x5C))
         \<and> \<not> isDirectory fs (resolve env (cwd (flags c)) d))"
    using False
    by (auto simp: fileToFile_def p isFileToFileCopy_single cwd_applyRenameTemplate
        sourcePatternsOf_def str_startsWith_def hasTrailingSeparator_def hasDestination_def)
  have yes: "fileToFile env fs c \<Longrightarrow>
        prepare env fs c =
          (butlast (input c), Some (dirname env (last (input c))),
           (applyRenameTemplate (flags c))
             \<lparr>rename := JsFunction (renameLiteral (basename env (last (input c)))),
              flat := True\<rparr>)"
    by (simp add: fileToFile_def prepare_def p)
  have no: "\<not> fileToFile env fs c \<Longrightarrow>
        prepare env fs c
          = (snd (popInput (input c)), fst (popInput (input c)), applyRenameTemplate (flags c))"
    by (simp add: fileToFile_def prepare_def p)
  from iff yes no show ?thesis
    by (simp add: renameLiteral_def)
qed

lemma fileToFile_plainCopy: "fileToFile sampleEnv oneFile plainCopy"
  by code_simp

text \<open>
  \<open>cpy a.txt out.txt\<close> in \<open>/work\<close>, where \<open>out.txt\<close> does not exist: the engine is
  asked to put the file into \<open>.\<close> under the name \<open>out.txt\<close>.
\<close>

theorem file_to_file_reclassification_witness:
  "fileToFile sampleEnv oneFile plainCopy
   \<and> fst (prepare sampleEnv oneFile plainCopy) = [''a.txt'']
   \<and> fst (snd (prepare sampleEnv oneFile plainCopy)) = Some ''.''
   \<and> flat (snd (snd (prepare sampleEnv oneFile plainCopy)))
   \<and> (case rename (snd (snd (prepare sampleEnv oneFile plainCopy))) of
         JsFunction callback \<Rightarrow>
           name (callback (entryOf ''/work/a.txt'') (entryOf ''/work/a.txt'')) = ''out.txt''
       | _ \<Rightarrow> False)
   \<and> \<not> fileToFile sampleEnv twoFiles twoCopies
   \<and> fst (prepare sampleEnv twoFiles twoCopies) = [''a.txt'', ''b.txt'']
   \<and> fst (snd (prepare sampleEnv twoFiles twoCopies)) = Some ''dest''
   \<and> \<not> flat (snd (snd (prepare sampleEnv twoFiles twoCopies)))"
proof -
  note t = file_to_file_reclassification [of sampleEnv oneFile plainCopy]
  note u = file_to_file_reclassification [of sampleEnv twoFiles twoCopies]
  have i: "input plainCopy = [''a.txt'', ''out.txt'']"
    by (simp add: plainCopy_def)
  have d: "dirname sampleEnv ''out.txt'' = ''.''"
    by code_simp
  have b: "basename sampleEnv ''out.txt'' = ''out.txt''"
    by code_simp
  have n: "\<not> fileToFile sampleEnv twoFiles twoCopies"
    by code_simp
  have j: "popInput (input twoCopies) = (Some ''dest'', [''a.txt'', ''b.txt''])"
    by code_simp
  have f: "\<not> flat (applyRenameTemplate (flags twoCopies))"
    by code_simp
  from t u fileToFile_plainCopy n show ?thesis
    by (simp add: i d b j f renameLiteral_def)
qed

text \<open>
  \<open>cpy a.txt '!b.txt' out.txt\<close> has two source arguments and is reclassified all the
  same: the negated pattern is not counted, and the file arrives as \<open>out.txt\<close>, not
  as \<open>out.txt/a.txt\<close>.
\<close>

theorem file_to_file_counts_positive_patterns_only:
  "fileToFile sampleEnv oneFile negatedCopy
   \<and> length (butlast (input negatedCopy)) = 2
   \<and> filesystemAfter (main sampleEnv oneFile negatedCopy) ''/work/out.txt''
        = Some (File ''A'' 1)
   \<and> filesystemAfter (main sampleEnv oneFile negatedCopy) ''/work/out.txt/a.txt'' = None"
  by code_simp

text \<open>The whole run of \<open>cpy a.txt out.txt\<close>: the file arrives under the new name.\<close>

lemma plainCopy_run:
  "status (main sampleEnv oneFile plainCopy) = Exit 0
   \<and> filesystemAfter (main sampleEnv oneFile plainCopy) ''/work/out.txt'' = Some (File ''A'' 1)
   \<and> filesystemAfter (main sampleEnv oneFile plainCopy) ''/work/out.txt/a.txt'' = None"
  by code_simp

subsection \<open>The dry run\<close>

text \<open>
  What holds of every dry run.  For every engine, the listing is one line per record
  that the engine reported, in the order of the reports, and it is empty when nothing
  was reported; the engine is called in dry-run mode.  The modelled scheduler in
  dry-run mode leaves the file system as it is and reports exactly the copy tasks that
  pass its update gate, in their order.
\<close>

lemma run_dry:
  assumes "optDryRun opts"
  shows "filesAfter (run opts tasks fs) = fs
    \<and> (\<forall>files. returned (run opts tasks fs) = Inr files \<longrightarrow>
          files = map recordOf (wouldCopy opts fs tasks)
          \<and> reported (run opts tasks fs) = files)"
proof (induction tasks)
  case Nil
  show ?case by (simp add: wouldCopy_def)
next
  case (Cons task tasks)
  obtain source destination where task: "task = (source, destination)"
    by (cases task)
  show ?case
  proof (cases "updateGate opts fs source destination")
    case (Inl e)
    then show ?thesis by (simp add: task)
  next
    case (Inr proceed)
    with Cons assms show ?thesis
      by (cases "returned (run opts tasks fs)")
        (auto simp: task wouldCopy_def recordOf_def Let_def)
  qed
qed

lemma dry_run_listing:
  assumes "dryRun (flags c)"
  shows "(\<forall>files. returned (cpyCall env fs c) = Inr files \<and> files \<noteq> [] \<longrightarrow>
            stdout (main env fs c) = map (formatLine env) (reported (cpyCall env fs c))
            \<and> status (main env fs c) = Exit 0)
    \<and> (reported (cpyCall env fs c) = [] \<longrightarrow> stdout (main env fs c) = [])
    \<and> optDryRun (copyOptionsOf (cpyOptions (snd (snd (prepare env fs c)))))
    \<and> (\<forall>r. formatLine env r =
          relative env (processCwd env) (sourcePath r) @ '' '' @ [CHR 0xE2, CHR 0x86, CHR 0x92]
            @ '' '' @ relative env (processCwd env) (destinationPath r))"
proof -
  have a: "\<forall>files. returned (cpyCall env fs c) = Inr files \<and> files \<noteq> [] \<longrightarrow>
            stdout (main env fs c) = map (formatLine env) (reported (cpyCall env fs c))
            \<and> status (main env fs c) = Exit 0"
    using assms by (simp add: main_report report_resolved prepare_flags)
  have b: "reported (cpyCall env fs c) = [] \<longrightarrow> stdout (main env fs c) = []"
    by (simp add: main_report stdout_report split: sum.splits)
  have c: "optDryRun (copyOptionsOf (cpyOptions (snd (snd (prepare env fs c)))))"
    using assms by (simp add: optDryRun_cpyOptions prepare_flags)
  have d: "\<forall>r. formatLine env r =
          relative env (processCwd env) (sourcePath r) @ '' '' @ [CHR 0xE2, CHR 0x86, CHR 0x92]
            @ '' '' @ relative env (processCwd env) (destinationPath r)"
    by (simp add: formatLine_def arrow_def)
  from a b c d show ?thesis by blast
qed

text \<open>\<open>cpy a.txt b.txt dest --dry-run\<close>: two lines in match order, nothing copied.\<close>

lemma dryRunCopies_run:
  "stdout (main sampleEnv twoFiles dryRunCopies)
     = [''a.txt '' @ arrow @ '' dest/a.txt'', ''b.txt '' @ arrow @ '' dest/b.txt'']
   \<and> status (main sampleEnv twoFiles dryRunCopies) = Exit 0
   \<and> filesystemAfter (main sampleEnv twoFiles dryRunCopies) ''/work/dest/a.txt'' = None
   \<and> filesystemAfter (main sampleEnv twoFiles dryRunCopies) ''/work/dest/b.txt'' = None"
  by code_simp

text \<open>
  Claim C3 says, among other things, that a dry run prints nothing at all when the
  update policy determines that no file needs copying.  The run below is the
  repository's test \<open>dry run update with no work produces no output\<close>:
  \<open>cpy source.txt dest --update --dry-run\<close> with a destination file that is newer than
  the source.  By the update policy no task is a would-be copy, and yet the listing
  has a line for the file, because update mode never reaches the engine.
\<close>

theorem dry_run_lists_up_to_date_file:
  "dryRun (flags updateDryRun)
   \<and> truthy (getProperty (undeclared (flags updateDryRun)) ''update'')
   \<and> wouldCopy updateDryMode updateFiles [(''/work/source.txt'', ''/work/dest/source.txt'')] = []
   \<and> stdout (main sampleEnv updateFiles updateDryRun)
        = [''source.txt '' @ arrow @ '' dest/source.txt'']"
  by code_simp

subsection \<open>The update policy\<close>

text \<open>
  Claim C4.  The update policy proceeds exactly when the destination does not exist, or
  the source's modification time is strictly newer than the destination's, or the
  modification times are equal and the sizes differ; with equal modification times and
  equal sizes it does not proceed.  That is a silent skip and not an error: in update
  mode the scheduler then passes over the file, reports nothing and leaves the file
  system as it is.
\<close>

theorem update_policy:
  "(shouldCopy sourceMeta destinationMeta \<longleftrightarrow>
      destinationMeta = None
      \<or> (\<exists>d. destinationMeta = Some d
            \<and> (modified d < modified sourceMeta
                \<or> (modified sourceMeta = modified d \<and> bytes sourceMeta \<noteq> bytes d))))
   \<and> (\<forall>d. modified sourceMeta = modified d \<and> bytes sourceMeta = bytes d \<longrightarrow>
          \<not> shouldCopy sourceMeta (Some d))
   \<and> (\<forall>opts fs source destination content content' t.
          optUpdate opts \<and> optOverwrite opts
          \<and> fs source = Some (File content t) \<and> fs destination = Some (File content' t)
          \<and> length content = length content' \<longrightarrow>
          run opts [(source, destination)] fs
            = \<lparr>returned = Inr [], reported = [], filesAfter = fs\<rparr>)"
proof -
  have a: "shouldCopy sourceMeta destinationMeta \<longleftrightarrow>
      destinationMeta = None
      \<or> (\<exists>d. destinationMeta = Some d
            \<and> (modified d < modified sourceMeta
                \<or> (modified sourceMeta = modified d \<and> bytes sourceMeta \<noteq> bytes d)))"
    by (auto simp: shouldCopy_def split: option.splits)
  have b: "\<forall>d. modified sourceMeta = modified d \<and> bytes sourceMeta = bytes d \<longrightarrow>
          \<not> shouldCopy sourceMeta (Some d)"
    by (simp add: shouldCopy_def)
  have c: "\<forall>opts fs source destination content content' t.
          optUpdate opts \<and> optOverwrite opts
          \<and> fs source = Some (File content t) \<and> fs destination = Some (File content' t)
          \<and> length content = length content' \<longrightarrow>
          run opts [(source, destination)] fs
            = \<lparr>returned = Inr [], reported = [], filesAfter = fs\<rparr>"
    by (simp add: updateGate_def readMeta_def shouldCopy_def)
  from a b c show ?thesis by blast
qed

text \<open>
  The cases of the repository's update tests: a missing destination, a newer source,
  equal times with the contents \<open>short\<close> and \<open>this is longer\<close>, equal times with the
  contents \<open>same\<close> and \<open>diff\<close> (the destination keeps \<open>diff\<close>), and an older source.
\<close>

theorem update_policy_witness:
  "shouldCopy \<lparr>modified = 4, bytes = 5\<rparr> None
   \<and> shouldCopy \<lparr>modified = 3, bytes = 12\<rparr> (Some \<lparr>modified = 2, bytes = 17\<rparr>)
   \<and> shouldCopy \<lparr>modified = 4, bytes = 5\<rparr> (Some \<lparr>modified = 4, bytes = 14\<rparr>)
   \<and> \<not> shouldCopy \<lparr>modified = 5, bytes = 4\<rparr> (Some \<lparr>modified = 5, bytes = 4\<rparr>)
   \<and> \<not> shouldCopy \<lparr>modified = 1, bytes = 10\<rparr> (Some \<lparr>modified = 2, bytes = 17\<rparr>)
   \<and> sameTimeFiles ''/work/source.txt'' = Some (File ''same'' 5)
   \<and> sameTimeFiles ''/work/dest/source.txt'' = Some (File ''diff'' 5)
   \<and> returned (run updateMode [(''/work/source.txt'', ''/work/dest/source.txt'')] sameTimeFiles)
        = Inr []
   \<and> filesAfter (run updateMode [(''/work/source.txt'', ''/work/dest/source.txt'')] sameTimeFiles)
        ''/work/dest/source.txt'' = Some (File ''diff'' 5)"
proof -
  note t1 = update_policy [of "\<lparr>modified = 4, bytes = 5\<rparr>" None]
  note t2 = update_policy [of "\<lparr>modified = 3, bytes = 12\<rparr>" "Some \<lparr>modified = 2, bytes = 17\<rparr>"]
  note t3 = update_policy [of "\<lparr>modified = 4, bytes = 5\<rparr>" "Some \<lparr>modified = 4, bytes = 14\<rparr>"]
  note t4 = update_policy [of "\<lparr>modified = 5, bytes = 4\<rparr>" "Some \<lparr>modified = 5, bytes = 4\<rparr>"]
  note t5 = update_policy [of "\<lparr>modified = 1, bytes = 10\<rparr>" "Some \<lparr>modified = 2, bytes = 17\<rparr>"]
  have s: "sameTimeFiles ''/work/source.txt'' = Some (File ''same'' 5)"
    by code_simp
  have d: "sameTimeFiles ''/work/dest/source.txt'' = Some (File ''diff'' 5)"
    by code_simp
  have m: "optUpdate updateMode \<and> optOverwrite updateMode"
    by (simp add: updateMode_def)
  from t1 m s d
  have r: "run updateMode [(''/work/source.txt'', ''/work/dest/source.txt'')] sameTimeFiles
      = \<lparr>returned = Inr [], reported = [], filesAfter = sameTimeFiles\<rparr>"
    by simp
  have c1: "shouldCopy \<lparr>modified = 4, bytes = 5\<rparr> None"
    using t1 by simp
  have c2: "shouldCopy \<lparr>modified = 3, bytes = 12\<rparr> (Some \<lparr>modified = 2, bytes = 17\<rparr>)"
    using t2 by simp
  have c3: "shouldCopy \<lparr>modified = 4, bytes = 5\<rparr> (Some \<lparr>modified = 4, bytes = 14\<rparr>)"
    using t3 by simp
  have c4: "\<not> shouldCopy \<lparr>modified = 5, bytes = 4\<rparr> (Some \<lparr>modified = 5, bytes = 4\<rparr>)"
    using t4 by simp
  have c5: "\<not> shouldCopy \<lparr>modified = 1, bytes = 10\<rparr> (Some \<lparr>modified = 2, bytes = 17\<rparr>)"
    using t5 by simp
  from c1 c2 c3 c4 c5 s d r show ?thesis by simp
qed

subsection \<open>The rename template\<close>

text \<open>
  A replacement value without a dollar sign is inserted as it is, so for such a name
  every occurrence of the placeholder becomes the name.
\<close>

lemma getSubstitution_plain:
  "CHR ''$'' \<notin> set replaceValue \<Longrightarrow>
     getSubstitution matched preceding following replaceValue = replaceValue"
  by (induction matched preceding following replaceValue rule: getSubstitution.induct) auto

lemma replaceAllFrom_plain:
  assumes "CHR ''$'' \<notin> set replaceValue" and "search \<noteq> []"
  shows "replaceAllFrom search replaceValue preceding rest =
     (if prefix search rest
      then replaceValue
             @ replaceAllFrom search replaceValue (preceding @ search) (drop (length search) rest)
      else (case rest of
              [] \<Rightarrow> []
            | c # cs \<Rightarrow> c # replaceAllFrom search replaceValue (preceding @ [c]) cs))"
  using assms
  by (subst replaceAllFrom.simps) (simp add: getSubstitution_plain)

text \<open>
  The examples of the specification and of the tests: \<open>hello.js\<close> under
  \<open>hi-{{basename}}\<close> and under \<open>{{basename}}-copy-{{basename}}\<close>, and \<open>.gitignore\<close>
  under \<open>hi-{{basename}}\<close>.  A rename string without the placeholder stays a string.
\<close>

lemma rename_template_examples:
  "name (renameTemplate ''hi-{{basename}}'' (entryOf ''/work/hello.js'') (entryOf ''/work/hello.js''))
     = ''hi-hello.js''
   \<and> name (renameTemplate ''{{basename}}-copy-{{basename}}'' (entryOf ''/work/hello.js'')
        (entryOf ''/work/hello.js'')) = ''hello-copy-hello.js''
   \<and> name (renameTemplate ''hi-{{basename}}'' (entryOf ''/work/.gitignore'')
        (entryOf ''/work/.gitignore'')) = ''hi-.gitignore''"
  by code_simp

lemma rename_literal_stays:
  "\<not> str_includes r stringTemplate \<Longrightarrow>
     applyRenameTemplate (f\<lparr>rename := JsString r\<rparr>) = f\<lparr>rename := JsString r\<rparr>"
  by (simp add: applyRenameTemplate_def)

text \<open>
  Claim C5 says that every occurrence of the placeholder is replaced by the source's
  name without extension.  For the file \<open>a$$b.js\<close> and the rule \<open>hi-{{basename}}\<close>
  that would be \<open>hi-a$$b.js\<close>; the callback of line 91 yields \<open>hi-a$b.js\<close>, because
  \<open>replaceAll\<close> reads \<open>$$\<close> in its second argument as an escaped dollar sign.
\<close>

theorem rename_template_expands_dollar_patterns:
  "nameWithoutExtension (entryOf ''/work/a$$b.js'') = ''a$$b''
   \<and> extension (entryOf ''/work/a$$b.js'') = ''js''
   \<and> (case rename (applyRenameTemplate
          ((defaultFlags ''/work'' 4)\<lparr>rename := JsString ''hi-{{basename}}''\<rparr>)) of
         JsFunction callback \<Rightarrow>
           name (callback (entryOf ''/work/a$$b.js'') (entryOf ''/work/a$$b.js''))
       | _ \<Rightarrow> []) = ''hi-a$b.js''"
  by code_simp

subsection \<open>The overwrite gate\<close>

text \<open>
  Claim C6.  When overwrite is disabled and the destination file exists, the copy
  raises \<open>AlreadyExistsError\<close> and the file system, the destination's content with it,
  stays as it was; when overwrite is enabled, the destination's content becomes the
  source's.  Overwrite is enabled by default, and the engine is called with the value
  of the flag.
\<close>

theorem overwrite_gate:
  assumes "fs source = Some (File new t)" and "fs destination = Some (File old t')"
  shows "performCopy False source destination fs = Inl (cpyError AlreadyExistsError destination)
    \<and> (\<forall>opts. \<not> optOverwrite opts \<and> \<not> optDryRun opts \<longrightarrow>
          returned (run opts [(source, destination)] fs)
            = Inl (cpyError AlreadyExistsError destination)
          \<and> filesAfter (run opts [(source, destination)] fs) = fs)
    \<and> performCopy True source destination fs = Inr (fs(destination \<mapsto> File new t))
    \<and> (\<forall>opts. optOverwrite opts \<and> \<not> optUpdate opts \<and> \<not> optDryRun opts \<longrightarrow>
          returned (run opts [(source, destination)] fs) = Inr [recordOf (source, destination)]
          \<and> filesAfter (run opts [(source, destination)] fs) destination = Some (File new t))
    \<and> overwrite (defaultFlags startDirectory cpus)
    \<and> (\<forall>f. optOverwrite (copyOptionsOf (cpyOptions f)) = overwrite f)"
proof -
  have a: "performCopy False source destination fs
      = Inl (cpyError AlreadyExistsError destination)"
    using assms by (simp add: performCopy_def)
  have b: "performCopy True source destination fs = Inr (fs(destination \<mapsto> File new t))"
    using assms by (simp add: performCopy_def)
  have c: "\<forall>opts. \<not> optOverwrite opts \<and> \<not> optDryRun opts \<longrightarrow>
          returned (run opts [(source, destination)] fs)
            = Inl (cpyError AlreadyExistsError destination)
          \<and> filesAfter (run opts [(source, destination)] fs) = fs"
    using a by (simp add: updateGate_without_overwrite)
  have d: "\<forall>opts. optOverwrite opts \<and> \<not> optUpdate opts \<and> \<not> optDryRun opts \<longrightarrow>
          returned (run opts [(source, destination)] fs) = Inr [recordOf (source, destination)]
          \<and> filesAfter (run opts [(source, destination)] fs) destination = Some (File new t)"
    using b by (simp add: updateGate_without_update recordOf_def Let_def)
  have e: "overwrite (defaultFlags startDirectory cpus)"
    by (simp add: defaultFlags_def)
  from a b c d e show ?thesis
    by (simp add: optOverwrite_cpyOptions)
qed

text \<open>
  \<open>hello.js\<close> with content \<open>A\<close> over \<open>dest/hello.js\<close> with content \<open>B\<close>: with
  \<open>--no-overwrite\<close> the program exits with code 1 and \<open>B\<close> stays, by default \<open>A\<close>
  arrives.
\<close>

theorem overwrite_gate_witness:
  "overwriteFiles ''/work/hello.js'' = Some (File ''A'' 2)
   \<and> overwriteFiles ''/work/dest/hello.js'' = Some (File ''B'' 1)
   \<and> performCopy False ''/work/hello.js'' ''/work/dest/hello.js'' overwriteFiles
        = Inl (cpyError AlreadyExistsError ''/work/dest/hello.js'')
   \<and> filesAfter
        (run \<lparr>optOverwrite = False, optUpdate = False, optDryRun = False\<rparr>
          [(''/work/hello.js'', ''/work/dest/hello.js'')] overwriteFiles)
        ''/work/dest/hello.js'' = Some (File ''B'' 1)
   \<and> filesAfter
        (run \<lparr>optOverwrite = True, optUpdate = False, optDryRun = False\<rparr>
          [(''/work/hello.js'', ''/work/dest/hello.js'')] overwriteFiles)
        ''/work/dest/hello.js'' = Some (File ''A'' 2)
   \<and> status (main sampleEnv overwriteFiles noOverwriteRun) = Exit 1
   \<and> stderr (main sampleEnv overwriteFiles noOverwriteRun)
        = [''destination already exists: /work/dest/hello.js'']
   \<and> filesystemAfter (main sampleEnv overwriteFiles noOverwriteRun) ''/work/dest/hello.js''
        = Some (File ''B'' 1)
   \<and> status (main sampleEnv overwriteFiles overwriteRun) = Exit 0
   \<and> filesystemAfter (main sampleEnv overwriteFiles overwriteRun) ''/work/dest/hello.js''
        = Some (File ''A'' 2)"
proof -
  have s: "overwriteFiles ''/work/hello.js'' = Some (File ''A'' 2)"
    by code_simp
  have d: "overwriteFiles ''/work/dest/hello.js'' = Some (File ''B'' 1)"
    by code_simp
  note t = overwrite_gate [where fs = overwriteFiles and source = "''/work/hello.js''"
      and destination = "''/work/dest/hello.js''", OF s d]
  from t have r1: "filesAfter
        (run \<lparr>optOverwrite = False, optUpdate = False, optDryRun = False\<rparr>
          [(''/work/hello.js'', ''/work/dest/hello.js'')] overwriteFiles) = overwriteFiles"
    by simp
  from t have r2: "filesAfter
        (run \<lparr>optOverwrite = True, optUpdate = False, optDryRun = False\<rparr>
          [(''/work/hello.js'', ''/work/dest/hello.js'')] overwriteFiles)
        ''/work/dest/hello.js'' = Some (File ''A'' 2)"
    by simp
  have n1: "status (main sampleEnv overwriteFiles noOverwriteRun) = Exit 1"
    by code_simp
  have n2: "stderr (main sampleEnv overwriteFiles noOverwriteRun)
        = [''destination already exists: /work/dest/hello.js'']"
    by code_simp
  have n3: "filesystemAfter (main sampleEnv overwriteFiles noOverwriteRun) ''/work/dest/hello.js''
        = Some (File ''B'' 1)"
    by code_simp
  have o1: "status (main sampleEnv overwriteFiles overwriteRun) = Exit 0"
    by code_simp
  have o2: "filesystemAfter (main sampleEnv overwriteFiles overwriteRun) ''/work/dest/hello.js''
        = Some (File ''A'' 2)"
    by code_simp
  from t s d r1 r2 n1 n2 n3 o1 o2 show ?thesis by simp
qed

subsection \<open>Exit code and error stream\<close>

text \<open>
  Claim C7.  When the patterns match no file, the engine resolves with an empty list,
  or rejects with its error of the kind \<open>NoMatchError\<close>, a \<open>CpyError\<close>.  Either way the
  program writes exactly one message to the error stream, writes nothing to standard
  output and exits with code 1; for the empty list the message is
  \<open>No files matched the given patterns\<close>, for the error it is the error's message.
\<close>

theorem no_match_exit:
  assumes "returned (cpyCall env fs c) = Inr []
     \<or> (\<exists>e. returned (cpyCall env fs c) = Inl e \<and> js_error.name e = ''CpyError'')"
  shows "status (main env fs c) = Exit 1
    \<and> length (stderr (main env fs c)) = 1
    \<and> stdout (main env fs c) = []
    \<and> (returned (cpyCall env fs c) = Inr [] \<longrightarrow>
          stderr (main env fs c) = [''No files matched the given patterns''])
    \<and> (\<forall>e. returned (cpyCall env fs c) = Inl e \<longrightarrow> stderr (main env fs c) = [message e])"
  using assms
  by (auto simp: main_report report_rejected report_resolved)

text \<open>
  \<open>cpy '*.js' dest\<close> where no \<open>.js\<close> file exists, once with an engine that resolves
  with an empty list and once with the modelled engine, which rejects.
\<close>

theorem no_match_exit_witness:
  "returned (cpyCall (posixEnv (constantEngine (Inr []))) twoFiles globRun) = Inr []
   \<and> status (main (posixEnv (constantEngine (Inr []))) twoFiles globRun) = Exit 1
   \<and> stderr (main (posixEnv (constantEngine (Inr []))) twoFiles globRun)
        = [''No files matched the given patterns'']
   \<and> stdout (main (posixEnv (constantEngine (Inr []))) twoFiles globRun) = []
   \<and> returned (cpyCall sampleEnv twoFiles globRun) = Inl (cpyError NoMatchError ''/work'')
   \<and> status (main sampleEnv twoFiles globRun) = Exit 1
   \<and> stderr (main sampleEnv twoFiles globRun) = [''no files matched: /work'']"
proof -
  have h1: "returned (cpyCall (posixEnv (constantEngine (Inr []))) twoFiles globRun) = Inr []"
    by code_simp
  have h2: "returned (cpyCall sampleEnv twoFiles globRun) = Inl (cpyError NoMatchError ''/work'')"
    by code_simp
  have n: "js_error.name (cpyError NoMatchError ''/work'') = ''CpyError''"
    by (simp add: cpyError_def)
  have m: "message (cpyError NoMatchError ''/work'') = ''no files matched: /work''"
    by (simp add: cpyError_def)
  note t1 = no_match_exit [of "posixEnv (constantEngine (Inr []))" twoFiles globRun]
  note t2 = no_match_exit [of sampleEnv twoFiles globRun]
  from t1 t2 h1 h2 n m show ?thesis by simp
qed

text \<open>
  Claim C8, as amended.  Every user-facing error ends in exactly one message on the
  error stream, no output and exit code 1.  For an error of the engine named
  \<open>CpyError\<close> the message is the error's message, written as it is with one call of
  \<open>console.error\<close>: it is a single line exactly when the error's message holds no
  line break.  For an empty result the message is the fixed line
  \<open>No files matched the given patterns\<close>.  Any other error is rethrown as it is, and
  the program writes nothing of its own.
\<close>

theorem catch_block:
  "(\<forall>e. returned (cpyCall env fs c) = Inl e \<and> js_error.name e = ''CpyError'' \<longrightarrow>
        stderr (main env fs c) = [message e]
        \<and> status (main env fs c) = Exit 1
        \<and> stdout (main env fs c) = []
        \<and> (list_all singleLine (stderr (main env fs c)) \<longleftrightarrow> singleLine (message e)))
   \<and> (returned (cpyCall env fs c) = Inr [] \<longrightarrow>
        stderr (main env fs c) = [''No files matched the given patterns'']
        \<and> status (main env fs c) = Exit 1
        \<and> stdout (main env fs c) = []
        \<and> list_all singleLine (stderr (main env fs c)))
   \<and> (\<forall>e. returned (cpyCall env fs c) = Inl e \<and> js_error.name e \<noteq> ''CpyError'' \<longrightarrow>
        status (main env fs c) = Uncaught e
        \<and> stderr (main env fs c) = []
        \<and> stdout (main env fs c) = [])"
proof -
  have a: "\<forall>e. returned (cpyCall env fs c) = Inl e \<and> js_error.name e = ''CpyError'' \<longrightarrow>
        stderr (main env fs c) = [message e]
        \<and> status (main env fs c) = Exit 1
        \<and> stdout (main env fs c) = []
        \<and> (list_all singleLine (stderr (main env fs c)) \<longleftrightarrow> singleLine (message e))"
    by (simp add: main_report report_rejected)
  have b: "returned (cpyCall env fs c) = Inr [] \<longrightarrow>
        stderr (main env fs c) = [''No files matched the given patterns'']
        \<and> status (main env fs c) = Exit 1
        \<and> stdout (main env fs c) = []
        \<and> list_all singleLine (stderr (main env fs c))"
    by (simp add: main_report report_resolved singleLine_def)
  have c: "\<forall>e. returned (cpyCall env fs c) = Inl e \<and> js_error.name e \<noteq> ''CpyError'' \<longrightarrow>
        status (main env fs c) = Uncaught e
        \<and> stderr (main env fs c) = []
        \<and> stdout (main env fs c) = []"
    by (simp add: main_report report_rejected)
  from a b c show ?thesis by blast
qed

text \<open>
  \<open>cpy nonexistentfile dest\<close> with the modelled engine, \<open>cpy '*.js' dest\<close> with an
  engine that resolves with an empty list, and a run in which the engine throws a
  \<open>TypeError\<close>.
\<close>

theorem catch_block_witness:
  "returned (cpyCall sampleEnv twoFiles missingRun)
     = Inl (cpyError SourceNotFoundError ''/work/nonexistentfile'')
   \<and> stderr (main sampleEnv twoFiles missingRun)
        = [''source file does not exist: /work/nonexistentfile'']
   \<and> status (main sampleEnv twoFiles missingRun) = Exit 1
   \<and> list_all singleLine (stderr (main sampleEnv twoFiles missingRun))
   \<and> returned (cpyCall (posixEnv (constantEngine (Inr []))) twoFiles globRun) = Inr []
   \<and> stderr (main (posixEnv (constantEngine (Inr []))) twoFiles globRun)
        = [''No files matched the given patterns'']
   \<and> status (main (posixEnv (constantEngine (Inr []))) twoFiles globRun) = Exit 1
   \<and> returned (cpyCall (posixEnv (constantEngine (Inl typeError))) twoFiles twoCopies)
        = Inl typeError
   \<and> status (main (posixEnv (constantEngine (Inl typeError))) twoFiles twoCopies)
        = Uncaught typeError
   \<and> stderr (main (posixEnv (constantEngine (Inl typeError))) twoFiles twoCopies) = []"
proof -
  have h1: "returned (cpyCall sampleEnv twoFiles missingRun)
     = Inl (cpyError SourceNotFoundError ''/work/nonexistentfile'')"
    by code_simp
  have h2: "returned (cpyCall (posixEnv (constantEngine (Inl typeError))) twoFiles twoCopies)
        = Inl typeError"
    by code_simp
  have h3: "returned (cpyCall (posixEnv (constantEngine (Inr []))) twoFiles globRun) = Inr []"
    by code_simp
  have n1: "js_error.name (cpyError SourceNotFoundError ''/work/nonexistentfile'') = ''CpyError''"
    by (simp add: cpyError_def)
  have m1: "message (cpyError SourceNotFoundError ''/work/nonexistentfile'')
      = ''source file does not exist: /work/nonexistentfile''"
    by (simp add: cpyError_def)
  have l1: "singleLine ''source file does not exist: /work/nonexistentfile''"
    by code_simp
  have n2: "js_error.name typeError \<noteq> ''CpyError''"
    by (simp add: typeError_def)
  note t1 = catch_block [of sampleEnv twoFiles missingRun]
  note t2 = catch_block [of "posixEnv (constantEngine (Inl typeError))" twoFiles twoCopies]
  note t3 = catch_block [of "posixEnv (constantEngine (Inr []))" twoFiles globRun]
  from t1 h1 n1 m1 l1
  have r1: "stderr (main sampleEnv twoFiles missingRun)
        = [''source file does not exist: /work/nonexistentfile'']
      \<and> status (main sampleEnv twoFiles missingRun) = Exit 1
      \<and> list_all singleLine (stderr (main sampleEnv twoFiles missingRun))"
    by simp
  from t2 h2 n2
  have r2: "status (main (posixEnv (constantEngine (Inl typeError))) twoFiles twoCopies)
        = Uncaught typeError
      \<and> stderr (main (posixEnv (constantEngine (Inl typeError))) twoFiles twoCopies) = []"
    by simp
  from t3 h3
  have r3: "stderr (main (posixEnv (constantEngine (Inr []))) twoFiles globRun)
        = [''No files matched the given patterns'']
      \<and> status (main (posixEnv (constantEngine (Inr []))) twoFiles globRun) = Exit 1"
    by simp
  from h1 h2 h3 r1 r2 r3 l1 show ?thesis by simp
qed

text \<open>
  \<open>cpy\<close> for a missing source whose name holds a line feed: the error is a
  \<open>CpyError\<close>, its message names the file, and the message on the error stream spans
  two lines.
\<close>

theorem catch_block_message_may_span_lines:
  "returned (cpyCall sampleEnv twoFiles lineFeedRun)
     = Inl (cpyError SourceNotFoundError (''/work/a'' @ [CHR 0x0A] @ ''b''))
   \<and> js_error.name (cpyError SourceNotFoundError (''/work/a'' @ [CHR 0x0A] @ ''b''))
        = ''CpyError''
   \<and> stderr (main sampleEnv twoFiles lineFeedRun)
        = [''source file does not exist: /work/a'' @ [CHR 0x0A] @ ''b'']
   \<and> status (main sampleEnv twoFiles lineFeedRun) = Exit 1
   \<and> \<not> list_all singleLine (stderr (main sampleEnv twoFiles lineFeedRun))"
  by code_simp

subsection \<open>Standard output without dry run\<close>

text \<open>
  Claim C9.  Without the dry-run flag the program writes nothing to standard output,
  however the run ends: the \<open>onProgress\<close> callback collects no record, whatever the
  engine reports, and the listing is skipped.
\<close>

theorem no_output_without_dry_run:
  assumes "\<not> dryRun (flags c)"
  shows "stdout (main env fs c) = []
    \<and> (\<forall>events. foldl (onProgress (snd (snd (prepare env fs c)))) [] events = [])"
  using assms
  by (simp add: main_report stdout_report foldl_onProgress prepare_flags split: sum.splits)

text \<open>\<open>cpy a.txt b.txt dest\<close>: both files are copied and nothing is printed.\<close>

theorem no_output_without_dry_run_witness:
  "\<not> dryRun (flags twoCopies)
   \<and> stdout (main sampleEnv twoFiles twoCopies) = []
   \<and> status (main sampleEnv twoFiles twoCopies) = Exit 0
   \<and> filesystemAfter (main sampleEnv twoFiles twoCopies) ''/work/dest/b.txt''
        = Some (File ''B'' 2)"
proof -
  have h: "\<not> dryRun (flags twoCopies)"
    by code_simp
  note t = no_output_without_dry_run [OF h, of sampleEnv twoFiles]
  have s: "status (main sampleEnv twoFiles twoCopies) = Exit 0"
    by code_simp
  have f: "filesystemAfter (main sampleEnv twoFiles twoCopies) ''/work/dest/b.txt''
        = Some (File ''B'' 2)"
    by code_simp
  from h t s f show ?thesis by simp
qed

subsection \<open>The directory check\<close>

text \<open>
  Claim C10.  The directory check of the file-to-file detection is total: whenever
  reading the metadata of a path fails, with whatever error, the path is classified as
  not a directory.  So a destination whose metadata cannot be read does not stand in
  the way of the detection: with one source pattern, the answer then only depends on
  the other conditions.
\<close>

theorem isDirectory_total:
  assumes "statSync fs filePath = Inl e"
  shows "isDirectory fs filePath = False
    \<and> (\<forall>env cwdFlag pattern d. resolve env cwdFlag d = filePath \<longrightarrow>
          isFileToFileCopy env fs cwdFlag [pattern] (Some d) =
            (\<not> isDynamicPattern env (sourcePatternForDynamicCheck env pattern)
             \<and> \<not> isDirectory fs (resolve env cwdFlag pattern)
             \<and> \<not> hasTrailingSeparator (Some d)))"
  using assms by (simp add: isDirectory_def isFileToFileCopy_def hasDestination_def)

lemma statSync_unreadable:
  "statSync unreadableFiles ''/work/out.txt''
     = Inl \<lparr>js_error.name = ''Error'', message = ''EACCES: permission denied''\<rparr>"
  by code_simp

text \<open>
  A destination that exists and cannot be read (\<open>EACCES\<close>, not \<open>ENOENT\<close>):
  \<open>cpy a.txt out.txt\<close> is a file-to-file copy.
\<close>

theorem isDirectory_total_witness:
  "statSync unreadableFiles ''/work/out.txt''
     = Inl \<lparr>js_error.name = ''Error'', message = ''EACCES: permission denied''\<rparr>
   \<and> isDirectory unreadableFiles ''/work/out.txt'' = False
   \<and> isFileToFileCopy sampleEnv unreadableFiles ''/work'' [''a.txt''] (Some ''out.txt'') = True"
proof -
  note t = isDirectory_total [OF statSync_unreadable]
  have r: "resolve sampleEnv ''/work'' ''out.txt'' = ''/work/out.txt''"
    by code_simp
  have a: "\<not> isDirectory unreadableFiles (resolve sampleEnv ''/work'' ''a.txt'')"
    by code_simp
  have d: "\<not> isDynamicPattern sampleEnv (sourcePatternForDynamicCheck sampleEnv ''a.txt'')"
    by code_simp
  have s: "\<not> hasTrailingSeparator (Some ''out.txt'')"
    by code_simp
  from t r a d s show ?thesis
    using statSync_unreadable by simp
qed

end
